theory Spec2Isabelle
  imports Main "HOL-Library.AList"
begin

section \<open>Decoded notification values\<close>

text \<open>
  A notification is a decoded JSON document. Its values are \<open>None\<close>, booleans, integers,
  strings, lists and dictionaries with string keys. A dictionary is an association list:
  \<open>map_of\<close> is the lookup and \<open>AList.update\<close> is the item assignment \<open>d[k] = v\<close>.
\<close>

datatype pyval =
    PNone
  | PBool bool
  | PInt int
  | PStr string
  | PList "pyval list"
  | PDict "(string \<times> pyval) list"

type_synonym pydict = "(string \<times> pyval) list"

text \<open>The exceptions the two \<open>process_notification\<close> bodies can raise.\<close>

datatype exn = KeyError string | TypeError | AttributeError

text \<open>Truth value testing, as \<open>if resource:\<close> does it.\<close>

fun truthy :: "pyval \<Rightarrow> bool" where
  "truthy PNone = False"
| "truthy (PBool b) = b"
| "truthy (PInt i) = (i \<noteq> 0)"
| "truthy (PStr s) = (s \<noteq> [])"
| "truthy (PList xs) = (xs \<noteq> [])"
| "truthy (PDict d) = (d \<noteq> [])"

text \<open>\<open>message[k]\<close> on the envelope, which is a dictionary: a missing key raises.\<close>

definition dict_getitem :: "pydict \<Rightarrow> string \<Rightarrow> exn + pyval" where
  "dict_getitem d k = (case map_of d k of None \<Rightarrow> Inl (KeyError k) | Some v \<Rightarrow> Inr v)"

text \<open>
  \<open>obj[k]\<close> with a string key on any value: only a dictionary can be subscripted by a
  string; a list or a string wants an integer index and the other values are not
  subscriptable at all.
\<close>

fun getitem :: "pyval \<Rightarrow> string \<Rightarrow> exn + pyval" where
  "getitem (PDict d) k = dict_getitem d k"
| "getitem _ k = Inl TypeError"

text \<open>\<open>obj[k] = v\<close> with a string key: the updated object, or the error.\<close>

fun setitem :: "pyval \<Rightarrow> string \<Rightarrow> pyval \<Rightarrow> exn + pyval" where
  "setitem (PDict d) k v = Inr (PDict (AList.update k v d))"
| "setitem _ k v = Inl TypeError"

text \<open>\<open>obj.get(k)\<close>: only a dictionary has the method; a missing key gives \<open>None\<close>.\<close>

fun get_method :: "pyval \<Rightarrow> string \<Rightarrow> exn + pyval" where
  "get_method (PDict d) k = Inr (case map_of d k of None \<Rightarrow> PNone | Some v \<Rightarrow> v)"
| "get_method _ k = Inl AttributeError"

text \<open>\<open>s.endswith(suffix)\<close> on strings.\<close>

definition endswith :: "string \<Rightarrow> string \<Rightarrow> bool" where
  "endswith s suf = (length suf \<le> length s \<and> drop (length s - length suf) s = suf)"

fun endswith_method :: "pyval \<Rightarrow> string \<Rightarrow> exn + bool" where
  "endswith_method (PStr s) suf = Inr (endswith s suf)"
| "endswith_method _ suf = Inl AttributeError"

text \<open>
  \<open>s.split('.')\<close>: the result always has one more element than \<open>s\<close> has dots. A
  character that is not a dot joins the first segment of what follows; the split of
  what follows is never empty, so the last case is never taken.
\<close>

fun split_dot :: "string \<Rightarrow> string list" where
  "split_dot [] = [[]]"
| "split_dot (c # cs) =
     (if c = CHR ''.'' then [] # split_dot cs
      else (case split_dot cs of
              w # ws \<Rightarrow> (c # w) # ws
            | [] \<Rightarrow> [[c]]))"

fun split_method :: "pyval \<Rightarrow> exn + string list" where
  "split_method (PStr s) = Inr (split_dot s)"
| "split_method _ = Inl AttributeError"

text \<open>
  \<open>for resource in resources\<close>: a list gives its elements, a dictionary its keys, a
  string its characters; \<open>None\<close>, a boolean or an integer is not iterable.
\<close>

fun py_iter :: "pyval \<Rightarrow> exn + pyval list" where
  "py_iter (PList xs) = Inr xs"
| "py_iter (PDict d) = Inr (map (\<lambda>kv. PStr (fst kv)) d)"
| "py_iter (PStr s) = Inr (map (\<lambda>c. PStr [c]) s)"
| "py_iter _ = Inl TypeError"

section \<open>Samples\<close>

text \<open>
  The sample types of \<open>ceilometer.sample\<close>. The gauge type is what the specification
  calls a STATE sample.
\<close>

datatype sample_type = TYPE_GAUGE | TYPE_DELTA | TYPE_CUMULATIVE

text \<open>
  A call of the constructor is handed a dict object, not a copy of one. A run knows two
  such objects: the caller's envelope itself, which the bandwidth plugin passes on (line
  175), and the one copy that line 91 makes of it, which the generic path passes to
  every call (lines 102 and 114).
\<close>

datatype message_obj = Caller_message | Resource_message

record sample =
  name :: string
  kind :: sample_type
  unit :: string
  volume :: pyval
  user_id :: pyval
  project_id :: pyval
  resource_id :: pyval
  raw_message :: pydict
  message_object :: message_obj

text \<open>
  Modelled from the spec: \<open>sample.Sample.from_notification\<close> lives in
  \<open>ceilometer/sample.py\<close>, which is not among the sources. The specification describes the
  sample as a record of name, kind, unit, volume, user id, project id, resource id and the
  retained envelope, and names no further field. The record below is filled from the
  keyword arguments of the call. For the envelope it keeps both what the call determines:
  \<open>message_object\<close> is the dict object that was handed over, and \<open>raw_message\<close> is
  what that object holds at the call. What the object holds later is not in the sample
  but in the outcome of the run, see \<open>retained_message\<close>.
\<close>

definition from_notification ::
  "string \<Rightarrow> sample_type \<Rightarrow> string \<Rightarrow> pyval \<Rightarrow> pyval \<Rightarrow> pyval \<Rightarrow> pyval
     \<Rightarrow> message_obj \<Rightarrow> pydict \<Rightarrow> sample" where
  "from_notification n t u v uid pid rid obj message =
     \<lparr>name = n, kind = t, unit = u, volume = v, user_id = uid, project_id = pid,
      resource_id = rid, raw_message = message, message_object = obj\<rparr>"

section \<open>The notification plugins\<close>

text \<open>
  A subclass of \<open>NetworkNotificationBase\<close> sets \<open>resource_name\<close> and may set
  \<open>counter_name\<close> and \<open>unit\<close>; an attribute that is not set is \<open>None\<close> here.
\<close>

record plugin =
  resource_name :: string
  counter_name_attr :: "string option"
  unit_attr :: "string option"

text \<open>\<open>getattr(self, 'counter_name', self.resource_name)\<close> and the same for the unit.\<close>

definition counter_name :: "plugin \<Rightarrow> string" where
  "counter_name self =
     (case counter_name_attr self of None \<Rightarrow> resource_name self | Some c \<Rightarrow> c)"

definition unit_value :: "plugin \<Rightarrow> string" where
  "unit_value self = (case unit_attr self of None \<Rightarrow> resource_name self | Some u \<Rightarrow> u)"

definition Network :: plugin where
  "Network = \<lparr>resource_name = ''network'', counter_name_attr = None, unit_attr = None\<rparr>"

definition FloatingIP :: plugin where
  "FloatingIP = \<lparr>resource_name = ''floatingip'', counter_name_attr = Some ''ip.floating'',
     unit_attr = Some ''ip''\<rparr>"

subsection \<open>Lines 81 to 89: the resources of a notification\<close>

text \<open>
  The first part of \<open>NetworkNotificationBase.process_notification\<close>. It returns the
  value bound to \<open>resources\<close> together with the envelope as the call leaves it: on the
  \<open>update.start\<close> branch the assignment \<open>resource['id'] = ...\<close> writes into the
  resource dictionary that sits inside the caller's payload.
\<close>

definition extract_resources :: "plugin \<Rightarrow> pydict \<Rightarrow> exn + (pyval \<times> pydict)" where
  "extract_resources self message =
     (case dict_getitem message ''payload'' of
        Inl e \<Rightarrow> Inl e
      | Inr payload \<Rightarrow>
        (case get_method payload (resource_name self) of
           Inl e \<Rightarrow> Inl e
         | Inr resource \<Rightarrow>
           if truthy resource then
             (case dict_getitem message ''event_type'' of
                Inl e \<Rightarrow> Inl e
              | Inr et \<Rightarrow>
                (case endswith_method et ''update.start'' of
                   Inl e \<Rightarrow> Inl e
                 | Inr False \<Rightarrow> Inr (PList [resource], message)
                 | Inr True \<Rightarrow>
                   (case getitem payload ''id'' of
                      Inl e \<Rightarrow> Inl e
                    | Inr v \<Rightarrow>
                      (case setitem resource ''id'' v of
                         Inl e \<Rightarrow> Inl e
                       | Inr resource' \<Rightarrow>
                         (case setitem payload (resource_name self) resource' of
                            Inl e \<Rightarrow> Inl e
                          | Inr payload' \<Rightarrow>
                            Inr (PList [resource'],
                                 AList.update ''payload'' payload' message))))))
           else
             (case get_method payload (resource_name self @ ''s'') of
                Inl e \<Rightarrow> Inl e
              | Inr resources \<Rightarrow> Inr (resources, message))))"

subsection \<open>Lines 92 to 114: the samples of the resources\<close>

text \<open>
  The keyword arguments of one \<open>from_notification\<close> call, evaluated in the order they
  are written: user id, project id, resource id.
\<close>

definition notification_sample ::
  "string \<Rightarrow> sample_type \<Rightarrow> string \<Rightarrow> pydict \<Rightarrow> pyval \<Rightarrow> exn + sample" where
  "notification_sample n t u resource_message resource =
     (case dict_getitem resource_message ''_context_user_id'' of
        Inl e \<Rightarrow> Inl e
      | Inr uid \<Rightarrow>
        (case dict_getitem resource_message ''_context_tenant_id'' of
           Inl e \<Rightarrow> Inl e
         | Inr pid \<Rightarrow>
           (case getitem resource ''id'' of
              Inl e \<Rightarrow> Inl e
            | Inr rid \<Rightarrow>
              Inr (from_notification n t u (PInt 1) uid pid rid
                     Resource_message resource_message))))"

definition event_type_split :: "pydict \<Rightarrow> exn + string list" where
  "event_type_split resource_message =
     (case dict_getitem resource_message ''event_type'' of
        Inl e \<Rightarrow> Inl e
      | Inr et \<Rightarrow> split_method et)"

text \<open>
  A generator that has yielded some samples and then raises has delivered those samples.
  The loop returns the samples yielded, the exception that ended it (if any) and the
  final content of \<open>resource_message\<close>, the one dictionary that every iteration
  re-points at its resource.
\<close>

definition yield :: "sample list \<Rightarrow> sample list \<times> exn option \<times> pydict
    \<Rightarrow> sample list \<times> exn option \<times> pydict" where
  "yield ss rest = (case rest of (xs, e, rm) \<Rightarrow> (ss @ xs, e, rm))"

fun emit_loop ::
  "string \<Rightarrow> string \<Rightarrow> pydict \<Rightarrow> pyval list \<Rightarrow> sample list \<times> exn option \<times> pydict" where
  "emit_loop cn u rm [] = ([], None, rm)"
| "emit_loop cn u rm (resource # rest) =
     (let rm' = AList.update ''payload'' resource rm in
      case notification_sample cn TYPE_GAUGE u rm' resource of
        Inl e \<Rightarrow> ([], Some e, rm')
      | Inr s1 \<Rightarrow>
        (case event_type_split rm' of
           Inl e \<Rightarrow> ([s1], Some e, rm')
         | Inr segs \<Rightarrow>
           if length segs > 2 then
             (case notification_sample (cn @ ''.'' @ segs ! 1) TYPE_DELTA u rm' resource of
                Inl e \<Rightarrow> ([s1], Some e, rm')
              | Inr s2 \<Rightarrow> yield [s1, s2] (emit_loop cn u rm' rest))
           else yield [s1] (emit_loop cn u rm' rest)))"

subsection \<open>The whole generator, run to its end\<close>

record outcome =
  emitted :: "sample list"
  raised :: "exn option"
  resource_message :: "pydict option"
  message_after :: pydict

definition process_notification :: "plugin \<Rightarrow> pydict \<Rightarrow> outcome" where
  "process_notification self message =
     (case extract_resources self message of
        Inl e \<Rightarrow>
          \<lparr>emitted = [], raised = Some e, resource_message = None, message_after = message\<rparr>
      | Inr (resources, message') \<Rightarrow>
        (case py_iter resources of
           Inl e \<Rightarrow>
             \<lparr>emitted = [], raised = Some e, resource_message = Some message',
              message_after = message'\<rparr>
         | Inr rs \<Rightarrow>
           (case emit_loop (counter_name self) (unit_value self) message' rs of
              (ss, e, rm) \<Rightarrow>
                \<lparr>emitted = ss, raised = e, resource_message = Some rm,
                 message_after = message'\<rparr>)))"


subsection \<open>Lines 166 to 175: the bandwidth plugin\<close>

text \<open>
  \<open>Bandwidth.process_notification\<close> reads three fields of the payload, in the order
  \<open>bytes\<close>, \<open>tenant_id\<close>, \<open>label_id\<close>, and yields one delta sample.
\<close>

definition bandwidth_process_notification :: "pydict \<Rightarrow> sample list \<times> exn option" where
  "bandwidth_process_notification message =
     (case dict_getitem message ''payload'' of
        Inl e \<Rightarrow> ([], Some e)
      | Inr payload \<Rightarrow>
        (case getitem payload ''bytes'' of
           Inl e \<Rightarrow> ([], Some e)
         | Inr v \<Rightarrow>
           (case getitem payload ''tenant_id'' of
              Inl e \<Rightarrow> ([], Some e)
            | Inr pid \<Rightarrow>
              (case getitem payload ''label_id'' of
                 Inl e \<Rightarrow> ([], Some e)
               | Inr rid \<Rightarrow>
                 ([from_notification ''bandwidth'' TYPE_DELTA ''B'' v PNone pid rid
                     Caller_message message],
                  None)))))"

section \<open>The emitter as the specification words it\<close>

text \<open>
  Section 4.2 of the specification, steps 2 and 3, for one resource: always one STATE
  sample named by the counter name, with the plugin's unit and volume 1; when the event
  type has more than two dot-separated segments, one more sample of type DELTA whose name
  is the counter name, a dot and the second segment, everything else being the same.
  This definition follows the specification and is compared with \<open>emit_loop\<close> below.
\<close>

definition spec_emit ::
  "string \<Rightarrow> string \<Rightarrow> string \<Rightarrow> pyval \<Rightarrow> pyval \<Rightarrow> pyval \<Rightarrow> pydict \<Rightarrow> sample list" where
  "spec_emit cn u et uid pid rid view =
     (let state = \<lparr>name = cn, kind = TYPE_GAUGE, unit = u, volume = PInt 1, user_id = uid,
                   project_id = pid, resource_id = rid, raw_message = view,
                   message_object = Resource_message\<rparr>
      in if length (split_dot et) > 2
         then [state, state\<lparr>name := cn @ ''.'' @ split_dot et ! 1, kind := TYPE_DELTA\<rparr>]
         else [state])"

section \<open>Example envelopes\<close>

text \<open>An envelope with the two context fields, for user \<open>u1\<close> and project \<open>p1\<close>.\<close>

definition envelope :: "string \<Rightarrow> pydict \<Rightarrow> pydict" where
  "envelope et payload =
     [(''event_type'', PStr et), (''payload'', PDict payload),
      (''_context_user_id'', PStr ''u1''), (''_context_tenant_id'', PStr ''p1'')]"

text \<open>Scenarios A, B and D of the specification.\<close>

definition scenario_A :: pydict where
  "scenario_A = envelope ''network.create.end'' [(''network'', PDict [(''id'', PStr ''n1'')])]"


definition scenario_D :: pydict where
  "scenario_D = envelope ''network.update.start''
     [(''id'', PStr ''n1''), (''network'', PDict [(''name'', PStr ''changed'')])]"

text \<open>Scenario C, for the bandwidth plugin: no context fields are needed.\<close>

definition scenario_C :: pydict where
  "scenario_C =
     [(''event_type'', PStr ''l3.meter''),
      (''payload'', PDict [(''bytes'', PInt 4096), (''tenant_id'', PStr ''p1''),
                          (''label_id'', PStr ''lbl1'')])]"

text \<open>A created network whose \<open>id\<close> is the empty string, and a meter with an empty label.\<close>

definition empty_id_envelope :: pydict where
  "empty_id_envelope =
     envelope ''network.create.end'' [(''network'', PDict [(''id'', PStr [])])]"

definition empty_label_envelope :: pydict where
  "empty_label_envelope =
     [(''event_type'', PStr ''l3.meter''),
      (''payload'', PDict [(''bytes'', PInt 4096), (''tenant_id'', PStr ''p1''),
                          (''label_id'', PStr [])])]"

text \<open>
  Two envelopes without the project field \<open>_context_tenant_id\<close>: one whose collection of
  networks is empty, one that reports a created network.
\<close>

definition no_tenant_no_resources :: pydict where
  "no_tenant_no_resources =
     [(''event_type'', PStr ''network.exists''),
      (''payload'', PDict [(''networks'', PList [])]),
      (''_context_user_id'', PStr ''u1'')]"

definition no_tenant_one_network :: pydict where
  "no_tenant_one_network =
     [(''event_type'', PStr ''network.create.end''),
      (''payload'', PDict [(''network'', PDict [(''id'', PStr ''n1'')])]),
      (''_context_user_id'', PStr ''u1'')]"

text \<open>
  An \<open>update.start\<close> notification whose resource object is the empty dictionary, one
  whose resource object carries an \<open>id\<close> of its own that differs from the payload's, and
  a payload with an empty singular resource next to a collection.
\<close>

definition empty_resource_update :: pydict where
  "empty_resource_update =
     envelope ''network.update.start'' [(''id'', PStr ''X''), (''network'', PDict [])]"

definition own_id_update :: pydict where
  "own_id_update =
     envelope ''network.update.start''
       [(''id'', PStr ''n1''),
        (''network'', PDict [(''id'', PStr ''other''), (''name'', PStr ''changed'')])]"


text \<open>An \<open>update.start\<close> notification that carries a collection and a top-level id.\<close>

definition plural_update_start :: pydict where
  "plural_update_start =
     envelope ''network.update.start''
       [(''id'', PStr ''top''),
        (''networks'', PList [PDict [(''id'', PStr ''n1'')], PDict [(''id'', PStr ''n2'')]])]"

text \<open>A notification whose payload is the empty dictionary.\<close>

definition empty_payload_envelope :: pydict where
  "empty_payload_envelope = envelope ''network.exists'' []"

text \<open>
  A collection of three networks whose second element has no \<open>id\<close>, and a meter
  notification without a \<open>label_id\<close>.
\<close>

definition id_less_second :: pydict where
  "id_less_second =
     envelope ''network.exists''
       [(''networks'', PList [PDict [(''id'', PStr ''n1'')],
                             PDict [(''name'', PStr ''unnamed'')],
                             PDict [(''id'', PStr ''n3'')]])]"

definition no_label_envelope :: pydict where
  "no_label_envelope =
     [(''event_type'', PStr ''l3.meter''),
      (''payload'', PDict [(''bytes'', PInt 4096), (''tenant_id'', PStr ''p1'')])]"

section \<open>Auxiliary facts\<close>

subsection \<open>The names and units of two plugins\<close>

lemma plugin_names:
  "counter_name Network = ''network'' \<and> unit_value Network = ''network''
   \<and> counter_name FloatingIP = ''ip.floating'' \<and> unit_value FloatingIP = ''ip''"
  by (simp add: counter_name_def unit_value_def Network_def FloatingIP_def)

subsection \<open>Splitting at the dots, and suffixes\<close>

text \<open>
  The segments of \<open>split_dot\<close> are one more than the dots, contain no dot, and are
  the string without its dots when put together.
\<close>

lemma split_dot_nonempty: "split_dot s \<noteq> []"
  by (induction s) (auto split: list.splits)

lemma length_split_dot: "length (split_dot s) = Suc (length (filter (\<lambda>c. c = CHR ''.'') s))"
  by (induction s) (auto split: list.splits)

lemma concat_split_dot: "concat (split_dot s) = filter (\<lambda>c. c \<noteq> CHR ''.'') s"
  by (induction s) (auto split: list.splits)

lemma split_dot_no_dot: "w \<in> set (split_dot s) \<Longrightarrow> CHR ''.'' \<notin> set w"
  by (induction s arbitrary: w) (auto split: list.splits if_splits)

text \<open>\<open>endswith\<close> is the suffix test.\<close>

lemma endswith_iff: "endswith s suf \<longleftrightarrow> (\<exists>pre. s = pre @ suf)"
proof
  assume "endswith s suf"
  then have "s = take (length s - length suf) s @ suf"
    by (metis append_take_drop_id endswith_def)
  then show "\<exists>pre. s = pre @ suf" ..
next
  assume "\<exists>pre. s = pre @ suf"
  then show "endswith s suf" by (auto simp: endswith_def)
qed

subsection \<open>The two branches of the extraction\<close>

lemma extract_resources_frame:
  assumes "extract_resources self message = Inr (resources, message')" and "k \<noteq> ''payload''"
  shows "map_of message' k = map_of message k"
  using assms
  by (auto simp: extract_resources_def update_conv' split: sum.splits if_splits bool.splits)

lemma extract_resources_update_start:
  assumes "map_of message ''payload'' = Some (PDict p)"
    and "map_of p (resource_name self) = Some r" and "truthy r"
    and "map_of message ''event_type'' = Some (PStr et)" and "endswith et ''update.start''"
  shows "extract_resources self message =
     (case map_of p ''id'' of
        None \<Rightarrow> Inl (KeyError ''id'')
      | Some v \<Rightarrow>
        (case r of
           PDict rd \<Rightarrow>
             Inr (PList [PDict (AList.update ''id'' v rd)],
                  AList.update ''payload''
                    (PDict (AList.update (resource_name self)
                              (PDict (AList.update ''id'' v rd)) p)) message)
         | _ \<Rightarrow> Inl TypeError))"
  using assms
  by (cases r) (simp_all add: extract_resources_def dict_getitem_def split: option.splits)

lemma extract_resources_plural:
  assumes "map_of message ''payload'' = Some (PDict p)"
    and "\<not> truthy (case map_of p (resource_name self) of None \<Rightarrow> PNone | Some v \<Rightarrow> v)"
  shows "extract_resources self message =
     Inr (case map_of p (resource_name self @ ''s'') of None \<Rightarrow> PNone | Some v \<Rightarrow> v,
          message)"
  using assms by (simp add: extract_resources_def dict_getitem_def)


lemma extract_resources_Inl:
  "extract_resources self message = Inl e \<Longrightarrow> e \<noteq> KeyError ''_context_tenant_id''"
  by (auto simp: extract_resources_def dict_getitem_def
      split: sum.splits if_splits bool.splits option.splits
      elim!: get_method.elims endswith_method.elims getitem.elims setitem.elims)

lemma extract_resources_again:
  assumes "extract_resources self message = Inr (resources, message')"
    and "resource_name self \<noteq> ''id''"
  shows "extract_resources self message' = Inr (resources, message')"
proof (cases "message' = message")
  case True
  with assms show ?thesis by simp
next
  case False
  with assms(1) obtain p rd v et where *:
    "map_of message ''payload'' = Some (PDict p)"
    "map_of p (resource_name self) = Some (PDict rd)" "rd \<noteq> []"
    "map_of message ''event_type'' = Some (PStr et)" "endswith et ''update.start''"
    "map_of p ''id'' = Some v"
    "resources = PList [PDict (AList.update ''id'' v rd)]"
    "message' = AList.update ''payload''
        (PDict (AList.update (resource_name self) (PDict (AList.update ''id'' v rd)) p)) message"
    by (auto simp: extract_resources_def dict_getitem_def
        split: sum.splits option.splits bool.splits if_splits
        elim!: get_method.elims endswith_method.elims getitem.elims setitem.elims)
  let ?rd = "AList.update ''id'' v rd"
  let ?p = "AList.update (resource_name self) (PDict ?rd) p"
  have "extract_resources self message' =
      Inr (PList [PDict (AList.update ''id'' v ?rd)],
           AList.update ''payload''
             (PDict (AList.update (resource_name self) (PDict (AList.update ''id'' v ?rd)) ?p))
             message')"
    using * assms(2)
    by (subst extract_resources_update_start[where p = ?p and r = "PDict ?rd" and et = et])
       (simp_all add: update_conv')
  with * show ?thesis by simp
qed

subsection \<open>One call of the sample constructor\<close>

lemma notification_sample_Inr:
  "notification_sample n t u rm r = Inr s \<Longrightarrow>
     raw_message s = rm \<and> message_object s = Resource_message
     \<and> getitem r ''id'' = Inr (resource_id s) \<and> name s = n \<and> kind s = t
     \<and> unit s = u \<and> volume s = PInt 1
     \<and> map_of rm ''_context_user_id'' = Some (user_id s)
     \<and> map_of rm ''_context_tenant_id'' = Some (project_id s)"
  by (auto simp: notification_sample_def from_notification_def dict_getitem_def
      split: sum.splits option.splits)

lemma notification_sample_Inl:
  "notification_sample n t u rm r = Inl e \<Longrightarrow>
     e = KeyError ''_context_user_id'' \<and> map_of rm ''_context_user_id'' = None
   \<or> e = KeyError ''_context_tenant_id'' \<and> map_of rm ''_context_tenant_id'' = None
   \<or> e = KeyError ''id'' \<or> e = TypeError"
  by (cases r)
     (auto simp: notification_sample_def dict_getitem_def split: option.splits sum.splits)

lemma event_type_split_Inl:
  "event_type_split rm = Inl e \<Longrightarrow> e = KeyError ''event_type'' \<or> e = AttributeError"
  by (auto simp: event_type_split_def dict_getitem_def split: option.splits sum.splits
      elim: split_method.elims)

subsection \<open>The loop\<close>

lemma emit_loop_ConsE:
  assumes "emit_loop cn u rm (r # rs) = (ss, e, rm')"
  obtains
    (first_fails) e1 where
      "notification_sample cn TYPE_GAUGE u (AList.update ''payload'' r rm) r = Inl e1"
      "ss = []" "e = Some e1" "rm' = AList.update ''payload'' r rm"
  | (split_fails) s1 e1 where
      "notification_sample cn TYPE_GAUGE u (AList.update ''payload'' r rm) r = Inr s1"
      "event_type_split (AList.update ''payload'' r rm) = Inl e1"
      "ss = [s1]" "e = Some e1" "rm' = AList.update ''payload'' r rm"
  | (second_fails) s1 segs e1 where
      "notification_sample cn TYPE_GAUGE u (AList.update ''payload'' r rm) r = Inr s1"
      "event_type_split (AList.update ''payload'' r rm) = Inr segs" "2 < length segs"
      "notification_sample (cn @ ''.'' @ segs ! 1) TYPE_DELTA u
         (AList.update ''payload'' r rm) r = Inl e1"
      "ss = [s1]" "e = Some e1" "rm' = AList.update ''payload'' r rm"
  | (both) s1 segs s2 xs where
      "notification_sample cn TYPE_GAUGE u (AList.update ''payload'' r rm) r = Inr s1"
      "event_type_split (AList.update ''payload'' r rm) = Inr segs" "2 < length segs"
      "notification_sample (cn @ ''.'' @ segs ! 1) TYPE_DELTA u
         (AList.update ''payload'' r rm) r = Inr s2"
      "emit_loop cn u (AList.update ''payload'' r rm) rs = (xs, e, rm')"
      "ss = s1 # s2 # xs"
  | (gauge_only) s1 segs xs where
      "notification_sample cn TYPE_GAUGE u (AList.update ''payload'' r rm) r = Inr s1"
      "event_type_split (AList.update ''payload'' r rm) = Inr segs" "\<not> 2 < length segs"
      "emit_loop cn u (AList.update ''payload'' r rm) rs = (xs, e, rm')"
      "ss = s1 # xs"
proof (cases "notification_sample cn TYPE_GAUGE u (AList.update ''payload'' r rm) r")
  case (Inl e1)
  with assms show ?thesis by (intro first_fails[of e1]) (simp_all add: Let_def)
next
  case s1: (Inr s1)
  show ?thesis
  proof (cases "event_type_split (AList.update ''payload'' r rm)")
    case (Inl e1)
    with assms s1 show ?thesis by (intro split_fails[of s1 e1]) (simp_all add: Let_def)
  next
    case segs: (Inr segs)
    show ?thesis
    proof (cases "2 < length segs")
      case False
      obtain xs e' m where rest: "emit_loop cn u (AList.update ''payload'' r rm) rs = (xs, e', m)"
        by (cases "emit_loop cn u (AList.update ''payload'' r rm) rs") auto
      with assms s1 segs False show ?thesis
        by (intro gauge_only[of s1 segs xs]) (simp_all add: Let_def yield_def)
    next
      case True
      show ?thesis
      proof (cases "notification_sample (cn @ ''.'' @ segs ! 1) TYPE_DELTA u
         (AList.update ''payload'' r rm) r")
        case (Inl e1)
        with assms s1 segs True show ?thesis
          by (intro second_fails[of s1 segs e1]) (simp_all add: Let_def)
      next
        case (Inr s2)
        obtain xs e' m where rest: "emit_loop cn u (AList.update ''payload'' r rm) rs = (xs, e', m)"
          by (cases "emit_loop cn u (AList.update ''payload'' r rm) rs") auto
        with assms s1 segs True Inr show ?thesis
          by (intro both[of s1 segs s2 xs]) (simp_all add: Let_def yield_def)
      qed
    qed
  qed
qed

lemma emit_loop_samples:
  "emit_loop cn u rm rs = (ss, e, rm') \<Longrightarrow> s \<in> set ss \<Longrightarrow>
     \<exists>r \<in> set rs. raw_message s = AList.update ''payload'' r rm
        \<and> getitem r ''id'' = Inr (resource_id s)"
proof (induction rs arbitrary: rm ss e rm')
  case Nil
  then show ?case by simp
next
  case (Cons r rs)
  from Cons.prems(1) show ?case
  proof (cases rule: emit_loop_ConsE)
    case first_fails
    with Cons.prems show ?thesis by simp
  next
    case split_fails
    with Cons.prems show ?thesis by (auto dest: notification_sample_Inr)
  next
    case second_fails
    with Cons.prems show ?thesis by (auto dest: notification_sample_Inr)
  next
    case (both s1 segs s2 xs)
    show ?thesis
    proof (cases "s \<in> set xs")
      case True
      from Cons.IH[OF both(5) True] show ?thesis by auto
    next
      case False
      with Cons.prems both show ?thesis by (auto dest: notification_sample_Inr)
    qed
  next
    case (gauge_only s1 segs xs)
    show ?thesis
    proof (cases "s \<in> set xs")
      case True
      from Cons.IH[OF gauge_only(4) True] show ?thesis by auto
    next
      case False
      with Cons.prems gauge_only show ?thesis by (auto dest: notification_sample_Inr)
    qed
  qed
qed

lemma emit_loop_well_formed:
  assumes "map_of rm ''_context_user_id'' = Some uid"
    and "map_of rm ''_context_tenant_id'' = Some pid"
    and "map_of rm ''event_type'' = Some (PStr et)"
    and "\<forall>d\<in>set ds. map_of d ''id'' \<noteq> None"
  shows "fst (emit_loop cn u rm (map PDict ds)) =
           concat (map (\<lambda>d. spec_emit cn u et uid pid (the (map_of d ''id''))
                                (AList.update ''payload'' (PDict d) rm)) ds)
       \<and> fst (snd (emit_loop cn u rm (map PDict ds))) = None"
  using assms
proof (induction ds arbitrary: rm)
  case Nil
  then show ?case by simp
next
  case (Cons d ds)
  let ?rm = "AList.update ''payload'' (PDict d) rm"
  obtain v where v: "map_of d ''id'' = Some v" using Cons.prems(4) by auto
  have keys: "map_of ?rm ''_context_user_id'' = Some uid"
    "map_of ?rm ''_context_tenant_id'' = Some pid"
    "map_of ?rm ''event_type'' = Some (PStr et)"
    using Cons.prems by (simp_all add: update_conv')
  have ns: "\<And>n t. notification_sample n t u ?rm (PDict d) =
      Inr \<lparr>name = n, kind = t, unit = u, volume = PInt 1, user_id = uid,
           project_id = pid, resource_id = v, raw_message = ?rm,
           message_object = Resource_message\<rparr>"
    using keys v by (simp add: notification_sample_def dict_getitem_def from_notification_def)
  have sp: "event_type_split ?rm = Inr (split_dot et)"
    using keys by (simp add: event_type_split_def dict_getitem_def)
  have IH: "fst (emit_loop cn u ?rm (map PDict ds)) =
           concat (map (\<lambda>d. spec_emit cn u et uid pid (the (map_of d ''id''))
                                (AList.update ''payload'' (PDict d) rm)) ds)
       \<and> fst (snd (emit_loop cn u ?rm (map PDict ds))) = None"
    using Cons.IH[OF keys] Cons.prems(4) by simp
  obtain xs e m where rest: "emit_loop cn u ?rm (map PDict ds) = (xs, e, m)"
    by (cases "emit_loop cn u ?rm (map PDict ds)") auto
  have step: "emit_loop cn u rm (PDict d # map PDict ds) =
      (spec_emit cn u et uid pid v ?rm @ xs, e, m)"
    by (simp add: ns sp rest yield_def spec_emit_def Let_def)
  show ?case
    using IH v by (simp add: step rest del: emit_loop.simps)
qed

lemma emit_loop_tenant_present:
  "emit_loop cn u rm rs = (ss, e, rm') \<Longrightarrow> map_of rm ''_context_tenant_id'' \<noteq> None \<Longrightarrow>
     e \<noteq> Some (KeyError ''_context_tenant_id'')"
proof (induction rs arbitrary: rm ss e rm')
  case Nil
  then show ?case by simp
next
  case (Cons r rs)
  have present: "map_of (AList.update ''payload'' r rm) ''_context_tenant_id'' \<noteq> None"
    using Cons.prems(2) by (simp add: update_conv')
  from Cons.prems(1) show ?case
  proof (cases rule: emit_loop_ConsE)
    case (first_fails e1)
    with present notification_sample_Inl[OF first_fails(1)] show ?thesis by auto
  next
    case (split_fails s1 e1)
    with event_type_split_Inl[OF split_fails(2)] show ?thesis by auto
  next
    case (second_fails s1 segs e1)
    with present notification_sample_Inl[OF second_fails(4)] show ?thesis by auto
  next
    case (both s1 segs s2 xs)
    from Cons.IH[OF both(5) present] show ?thesis .
  next
    case (gauge_only s1 segs xs)
    from Cons.IH[OF gauge_only(4) present] show ?thesis .
  qed
qed



lemma emit_loop_id_less:
  "emit_loop cn u rm rs = (ss, e, rm') \<Longrightarrow> r \<in> set rs \<Longrightarrow> getitem r ''id'' = Inl e0 \<Longrightarrow>
     e \<noteq> None"
proof (induction rs arbitrary: rm ss e rm')
  case Nil
  then show ?case by simp
next
  case (Cons r' rs)
  from Cons.prems(1) show ?case
  proof (cases rule: emit_loop_ConsE)
    case (both s1 segs s2 xs)
    from notification_sample_Inr[OF both(1)] Cons.prems(2,3) have "r \<in> set rs" by auto
    from Cons.IH[OF both(5) this Cons.prems(3)] show ?thesis .
  next
    case (gauge_only s1 segs xs)
    from notification_sample_Inr[OF gauge_only(1)] Cons.prems(2,3) have "r \<in> set rs" by auto
    from Cons.IH[OF gauge_only(4) this Cons.prems(3)] show ?thesis .
  qed simp_all
qed

subsection \<open>The whole generator\<close>

lemma process_notification_samples:
  assumes "s \<in> set (emitted (process_notification self message))"
  obtains resources message' rs r where
    "extract_resources self message = Inr (resources, message')"
    "py_iter resources = Inr rs" "r \<in> set rs"
    "raw_message s = AList.update ''payload'' r message'"
    "getitem r ''id'' = Inr (resource_id s)"
proof (cases "extract_resources self message")
  case (Inl e)
  with assms show ?thesis by (simp add: process_notification_def)
next
  case (Inr p)
  obtain resources message' where p: "p = (resources, message')" by (cases p) auto
  show ?thesis
  proof (cases "py_iter resources")
    case (Inl e)
    with assms Inr p show ?thesis by (simp add: process_notification_def)
  next
    case rs: (Inr rs)
    obtain ss e rm where
      run: "emit_loop (counter_name self) (unit_value self) message' rs = (ss, e, rm)"
      by (cases "emit_loop (counter_name self) (unit_value self) message' rs") auto
    with assms Inr p rs have "s \<in> set ss" by (simp add: process_notification_def)
    from emit_loop_samples[OF run this] Inr p rs that show ?thesis by blast
  qed
qed

lemma neither_key_general:
  assumes "map_of message ''payload'' = Some (PDict p)"
    and "map_of p (resource_name self) = None"
    and "map_of p (resource_name self @ ''s'') = None"
  shows "emitted (process_notification self message) = []
       \<and> raised (process_notification self message) = Some TypeError"
  using assms
  by (simp add: process_notification_def extract_resources_def dict_getitem_def)

subsection \<open>Runs of the scenarios\<close>

lemmas run_defs =
  process_notification_def extract_resources_def dict_getitem_def notification_sample_def
  event_type_split_def from_notification_def yield_def endswith_def Let_def
  counter_name_def unit_value_def envelope_def

lemma run_scenario_A:
  "emitted (process_notification Network scenario_A) =
     [\<lparr>name = ''network'', kind = TYPE_GAUGE, unit = ''network'', volume = PInt 1,
       user_id = PStr ''u1'', project_id = PStr ''p1'', resource_id = PStr ''n1'',
       raw_message = envelope ''network.create.end'' [(''id'', PStr ''n1'')],
       message_object = Resource_message\<rparr>,
      \<lparr>name = ''network.create'', kind = TYPE_DELTA, unit = ''network'', volume = PInt 1,
       user_id = PStr ''u1'', project_id = PStr ''p1'', resource_id = PStr ''n1'',
       raw_message = envelope ''network.create.end'' [(''id'', PStr ''n1'')],
       message_object = Resource_message\<rparr>]"
  by (simp add: run_defs Network_def scenario_A_def)


lemma run_scenario_C:
  "bandwidth_process_notification scenario_C =
     ([\<lparr>name = ''bandwidth'', kind = TYPE_DELTA, unit = ''B'', volume = PInt 4096,
        user_id = PNone, project_id = PStr ''p1'', resource_id = PStr ''lbl1'',
        raw_message = scenario_C,
        message_object = Caller_message\<rparr>], None)"
  by (simp add: bandwidth_process_notification_def dict_getitem_def from_notification_def
      scenario_C_def)

lemma run_id_less_second:
  "extract_resources Network id_less_second =
     Inr (PList [PDict [(''id'', PStr ''n1'')], PDict [(''name'', PStr ''unnamed'')],
                 PDict [(''id'', PStr ''n3'')]], id_less_second)
   \<and> map resource_id (emitted (process_notification Network id_less_second)) = [PStr ''n1'']
   \<and> raised (process_notification Network id_less_second) = Some (KeyError ''id'')"
  by (simp add: run_defs Network_def id_less_second_def)


subsection \<open>A second run on the envelope that the first run left\<close>

text \<open>
  The one effect a run has on its argument is the \<open>id\<close> written into the resource on
  the \<open>update.start\<close> branch: \<open>message_after\<close> is the caller's envelope after the run.
  Running the generator again on that envelope gives the same outcome, and leaves the
  envelope as it is. No plugin of the source names its resource \<open>id\<close>; for such a name
  the assignment of line 86 would store the resource inside itself, which the tree of
  values here does not represent.
\<close>

lemma second_run_same_outcome:
  assumes "resource_name self \<noteq> ''id''"
  shows "process_notification self (message_after (process_notification self message))
       = process_notification self message"
proof (cases "extract_resources self message")
  case (Inl e)
  then show ?thesis by (simp add: process_notification_def)
next
  case (Inr q)
  obtain resources message' where q: "q = (resources, message')" by (cases q) auto
  have after: "message_after (process_notification self message) = message'"
    using Inr q by (simp add: process_notification_def split: sum.splits prod.splits)
  have again: "extract_resources self message' = Inr (resources, message')"
    using extract_resources_again[OF _ assms] Inr q by simp
  show ?thesis
    unfolding after using Inr q again by (simp add: process_notification_def)
qed

lemma second_run_on_scenario_D:
  "message_after (process_notification Network scenario_D) \<noteq> scenario_D
   \<and> process_notification Network (message_after (process_notification Network scenario_D))
       = process_notification Network scenario_D"
proof -
  have "message_after (process_notification Network scenario_D) \<noteq> scenario_D"
    by (simp add: run_defs Network_def scenario_D_def)
  moreover have "resource_name Network \<noteq> ''id''" by (simp add: Network_def)
  ultimately show ?thesis using second_run_same_outcome[of Network scenario_D] by simp
qed

section \<open>The claims\<close>

subsection \<open>C1: a payload with neither key\<close>

text \<open>
  C1 says that an envelope whose payload has neither the key \<open>resource_name\<close> nor the key
  \<open>resource_name + "s"\<close> gives an empty sample sequence and does not fail. In the code
  both lookups are \<open>.get\<close> calls, so \<open>resources\<close> is \<open>None\<close>, and line 92 iterates
  over it: the generator raises \<open>TypeError\<close> before it yields anything. The theorem runs
  the network plugin on an envelope whose payload is the empty dictionary.
\<close>

theorem neither_key_raises_TypeError:
  "process_notification Network empty_payload_envelope
   = \<lparr>emitted = [], raised = Some TypeError,
      resource_message = Some empty_payload_envelope,
      message_after = empty_payload_envelope\<rparr>"
  by (simp add: process_notification_def extract_resources_def dict_getitem_def Network_def
      empty_payload_envelope_def envelope_def)

subsection \<open>C2: one STATE sample per resource, and one DELTA sample for a phase\<close>




subsection \<open>C3: the resource id of a sample\<close>

text \<open>
  C3 says that every emitted sample has a non-empty resource id. The code passes the value
  on unchecked: a created network whose \<open>id\<close> is the empty string gives two samples with
  the empty resource id, and a meter notification with an empty \<open>label_id\<close> gives one.
\<close>

theorem empty_resource_id_emitted:
  "map resource_id (emitted (process_notification Network empty_id_envelope))
     = [PStr [], PStr []]
   \<and> map resource_id (fst (bandwidth_process_notification empty_label_envelope))
     = [PStr []]"
  by (simp add: run_defs Network_def empty_id_envelope_def empty_label_envelope_def
      bandwidth_process_notification_def)

text \<open>
  C3 as amended: the resource id of every sample of the generic path is the value stored
  under \<open>id\<close> in the resource object that the sample's message carries as its payload,
  and the resource id of every sample of the bandwidth plugin is the value stored under
  \<open>label_id\<close> in the payload. An extracted resource whose \<open>id\<close> cannot be read gets
  no sample, and the generator raises; a payload whose \<open>label_id\<close> cannot be read gives
  no sample, and the bandwidth plugin raises. Whether the value is empty is not checked.
\<close>

theorem resource_id_is_id_field:
  "(\<forall>s\<in>set (emitted (process_notification self message)).
      \<exists>r. map_of (raw_message s) ''payload'' = Some r
         \<and> getitem r ''id'' = Inr (resource_id s))
   \<and> (\<forall>resources message' rs r e.
        extract_resources self message = Inr (resources, message')
        \<and> py_iter resources = Inr rs \<and> r \<in> set rs \<and> getitem r ''id'' = Inl e
      \<longrightarrow> raised (process_notification self message) \<noteq> None
        \<and> (\<forall>s\<in>set (emitted (process_notification self message)).
              map_of (raw_message s) ''payload'' \<noteq> Some r))
   \<and> (\<forall>s\<in>set (fst (bandwidth_process_notification message)).
      \<exists>p. map_of message ''payload'' = Some p
         \<and> getitem p ''label_id'' = Inr (resource_id s))
   \<and> (\<forall>p e. map_of message ''payload'' = Some p \<and> getitem p ''label_id'' = Inl e
      \<longrightarrow> fst (bandwidth_process_notification message) = []
        \<and> snd (bandwidth_process_notification message) \<noteq> None)"
proof -
  have generic: "\<exists>r. map_of (raw_message s) ''payload'' = Some r
         \<and> getitem r ''id'' = Inr (resource_id s)"
    if "s \<in> set (emitted (process_notification self message))" for s
  proof -
    from that obtain r message' where "raw_message s = AList.update ''payload'' r message'"
      "getitem r ''id'' = Inr (resource_id s)"
      by (rule process_notification_samples)
    then show ?thesis by (auto simp: update_conv')
  qed
  have raises: "raised (process_notification self message) \<noteq> None
        \<and> (\<forall>s\<in>set (emitted (process_notification self message)).
              map_of (raw_message s) ''payload'' \<noteq> Some r)"
    if *: "extract_resources self message = Inr (resources, message')
        \<and> py_iter resources = Inr rs \<and> r \<in> set rs \<and> getitem r ''id'' = Inl e"
    for resources message' rs r e
  proof
    obtain ss e' rm where
      run: "emit_loop (counter_name self) (unit_value self) message' rs = (ss, e', rm)"
      by (cases "emit_loop (counter_name self) (unit_value self) message' rs") auto
    from emit_loop_id_less[OF run] * have "e' \<noteq> None" by blast
    with * run show "raised (process_notification self message) \<noteq> None"
      by (simp add: process_notification_def)
    show "\<forall>s\<in>set (emitted (process_notification self message)).
              map_of (raw_message s) ''payload'' \<noteq> Some r"
    proof
      fix s assume "s \<in> set (emitted (process_notification self message))"
      from generic[OF this] * show "map_of (raw_message s) ''payload'' \<noteq> Some r" by auto
    qed
  qed
  have meter: "\<exists>p. map_of message ''payload'' = Some p
         \<and> getitem p ''label_id'' = Inr (resource_id s)"
    if "s \<in> set (fst (bandwidth_process_notification message))" for s
    using that
    by (auto simp: bandwidth_process_notification_def dict_getitem_def from_notification_def
        split: option.splits sum.splits)
  have no_label: "fst (bandwidth_process_notification message) = []
        \<and> snd (bandwidth_process_notification message) \<noteq> None"
    if "map_of message ''payload'' = Some p \<and> getitem p ''label_id'' = Inl e" for p e
    using that
    by (auto simp: bandwidth_process_notification_def dict_getitem_def split: sum.splits)
  from generic raises meter no_label show ?thesis by blast
qed

theorem resource_id_is_id_field_witness:
  "hd (emitted (process_notification Network scenario_A))
     \<in> set (emitted (process_notification Network scenario_A))
   \<and> (\<exists>r. map_of (raw_message (hd (emitted (process_notification Network scenario_A))))
             ''payload'' = Some r
          \<and> getitem r ''id'' = Inr (PStr ''n1''))
   \<and> getitem (PDict [(''name'', PStr ''unnamed'')]) ''id'' = Inl (KeyError ''id'')
   \<and> raised (process_notification Network id_less_second) \<noteq> None
   \<and> hd (fst (bandwidth_process_notification scenario_C))
     \<in> set (fst (bandwidth_process_notification scenario_C))
   \<and> (\<exists>p. map_of scenario_C ''payload'' = Some p
          \<and> getitem p ''label_id'' = Inr (PStr ''lbl1''))
   \<and> fst (bandwidth_process_notification no_label_envelope) = []
   \<and> snd (bandwidth_process_notification no_label_envelope) \<noteq> None"
proof -
  have a: "hd (emitted (process_notification Network scenario_A))
     \<in> set (emitted (process_notification Network scenario_A))"
    by (simp add: run_scenario_A)
  have c: "hd (fst (bandwidth_process_notification scenario_C))
     \<in> set (fst (bandwidth_process_notification scenario_C))"
    by (simp add: run_scenario_C)
  have ida: "resource_id (hd (emitted (process_notification Network scenario_A))) = PStr ''n1''"
    by (simp add: run_scenario_A)
  have idc: "resource_id (hd (fst (bandwidth_process_notification scenario_C))) = PStr ''lbl1''"
    by (simp add: run_scenario_C)
  from resource_id_is_id_field[of Network scenario_A] a ida
  have 1: "\<exists>r. map_of (raw_message (hd (emitted (process_notification Network scenario_A))))
             ''payload'' = Some r \<and> getitem r ''id'' = Inr (PStr ''n1'')"
    by metis
  from resource_id_is_id_field[of Network scenario_C] c idc
  have 2: "\<exists>p. map_of scenario_C ''payload'' = Some p
          \<and> getitem p ''label_id'' = Inr (PStr ''lbl1'')"
    by metis
  have noid: "getitem (PDict [(''name'', PStr ''unnamed'')]) ''id'' = Inl (KeyError ''id'')"
    by (simp add: dict_getitem_def)
  have ex: "extract_resources Network id_less_second =
     Inr (PList [PDict [(''id'', PStr ''n1'')], PDict [(''name'', PStr ''unnamed'')],
                 PDict [(''id'', PStr ''n3'')]], id_less_second)"
    by (simp add: run_id_less_second)
  have it: "py_iter (PList [PDict [(''id'', PStr ''n1'')], PDict [(''name'', PStr ''unnamed'')],
                 PDict [(''id'', PStr ''n3'')]])
      = Inr [PDict [(''id'', PStr ''n1'')], PDict [(''name'', PStr ''unnamed'')],
                 PDict [(''id'', PStr ''n3'')]]
     \<and> PDict [(''name'', PStr ''unnamed'')]
       \<in> set [PDict [(''id'', PStr ''n1'')], PDict [(''name'', PStr ''unnamed'')],
                 PDict [(''id'', PStr ''n3'')]]"
    by simp
  from resource_id_is_id_field[of Network id_less_second] ex it noid
  have 3: "raised (process_notification Network id_less_second) \<noteq> None"
    by blast
  have pl: "map_of no_label_envelope ''payload''
      = Some (PDict [(''bytes'', PInt 4096), (''tenant_id'', PStr ''p1'')])
     \<and> getitem (PDict [(''bytes'', PInt 4096), (''tenant_id'', PStr ''p1'')]) ''label_id''
      = Inl (KeyError ''label_id'')"
    by (simp add: no_label_envelope_def dict_getitem_def)
  from resource_id_is_id_field[of Network no_label_envelope] pl
  have 4: "fst (bandwidth_process_notification no_label_envelope) = []
   \<and> snd (bandwidth_process_notification no_label_envelope) \<noteq> None"
    by blast
  from a c 1 2 3 4 noid show ?thesis by blast
qed

subsection \<open>C4: the project field\<close>

text \<open>
  C4 says that an envelope without the project field makes the transformation fail. The
  field is read when a sample is built, once per resource, so an envelope without it and
  with an empty collection of resources yields nothing and raises nothing.
\<close>

theorem no_tenant_no_resources_no_error:
  "map_of no_tenant_no_resources ''_context_tenant_id'' = None
   \<and> process_notification Network no_tenant_no_resources =
       \<lparr>emitted = [], raised = None, resource_message = Some no_tenant_no_resources,
        message_after = no_tenant_no_resources\<rparr>"
  by (simp add: run_defs Network_def no_tenant_no_resources_def)

text \<open>
  C4 as amended: when the envelope lacks \<open>_context_tenant_id\<close> and the extraction gives
  at least one resource, the generator raises \<open>KeyError\<close> for a missing context field
  before it yields any sample: for \<open>_context_tenant_id\<close> when the user field is
  present, and for \<open>_context_user_id\<close>, which is read first, when that is missing too.
  When \<open>_context_tenant_id\<close> is present, no \<open>KeyError\<close> for it is raised.
\<close>

theorem missing_tenant_field:
  "(map_of message ''_context_tenant_id'' = None
      \<longrightarrow> extract_resources self message = Inr (resources, message')
      \<longrightarrow> py_iter resources = Inr (r # rs)
      \<longrightarrow> emitted (process_notification self message) = []
        \<and> raised (process_notification self message) =
            Some (KeyError (if map_of message ''_context_user_id'' = None
                            then ''_context_user_id'' else ''_context_tenant_id'')))
   \<and> (map_of message ''_context_tenant_id'' \<noteq> None
      \<longrightarrow> raised (process_notification self message)
            \<noteq> Some (KeyError ''_context_tenant_id''))"
proof (intro conjI impI)
  assume none: "map_of message ''_context_tenant_id'' = None"
    and ex: "extract_resources self message = Inr (resources, message')"
    and it: "py_iter resources = Inr (r # rs)"
  let ?rm = "AList.update ''payload'' r message'"
  have keys: "map_of ?rm ''_context_tenant_id'' = None"
    "map_of ?rm ''_context_user_id'' = map_of message ''_context_user_id''"
    using none extract_resources_frame[OF ex] by (simp_all add: update_conv')
  have "notification_sample (counter_name self) TYPE_GAUGE (unit_value self) ?rm r =
      Inl (KeyError (if map_of message ''_context_user_id'' = None
                     then ''_context_user_id'' else ''_context_tenant_id''))"
    using keys by (auto simp: notification_sample_def dict_getitem_def split: option.splits)
  then have "emit_loop (counter_name self) (unit_value self) message' (r # rs) =
      ([], Some (KeyError (if map_of message ''_context_user_id'' = None
                     then ''_context_user_id'' else ''_context_tenant_id'')), ?rm)"
    by (simp add: Let_def)
  with ex it show "emitted (process_notification self message) = []"
    and "raised (process_notification self message) =
            Some (KeyError (if map_of message ''_context_user_id'' = None
                            then ''_context_user_id'' else ''_context_tenant_id''))"
    by (simp_all add: process_notification_def del: emit_loop.simps)
next
  assume present: "map_of message ''_context_tenant_id'' \<noteq> None"
  show "raised (process_notification self message) \<noteq> Some (KeyError ''_context_tenant_id'')"
  proof (cases "extract_resources self message")
    case (Inl e)
    with extract_resources_Inl[OF Inl] show ?thesis by (simp add: process_notification_def)
  next
    case (Inr p)
    obtain resources message' where p: "p = (resources, message')" by (cases p) auto
    have present': "map_of message' ''_context_tenant_id'' \<noteq> None"
      using present extract_resources_frame[of self message resources message'] Inr p by simp
    show ?thesis
    proof (cases "py_iter resources")
      case (Inl e)
      then have "e = TypeError" by (auto elim: py_iter.elims)
      with Inl Inr p show ?thesis by (simp add: process_notification_def)
    next
      case rs: (Inr rs)
      obtain ss e rm where
        run: "emit_loop (counter_name self) (unit_value self) message' rs = (ss, e, rm)"
        by (cases "emit_loop (counter_name self) (unit_value self) message' rs") auto
      from emit_loop_tenant_present[OF run present'] Inr p rs run show ?thesis
        by (simp add: process_notification_def)
    qed
  qed
qed

theorem missing_tenant_field_witness:
  "map_of no_tenant_one_network ''_context_tenant_id'' = None
   \<and> emitted (process_notification Network no_tenant_one_network) = []
   \<and> raised (process_notification Network no_tenant_one_network)
       = Some (KeyError ''_context_tenant_id'')
   \<and> map_of scenario_A ''_context_tenant_id'' = Some (PStr ''p1'')
   \<and> raised (process_notification Network scenario_A) \<noteq> Some (KeyError ''_context_tenant_id'')"
proof -
  have none: "map_of no_tenant_one_network ''_context_tenant_id'' = None"
    by (simp add: no_tenant_one_network_def)
  have ex: "extract_resources Network no_tenant_one_network
      = Inr (PList [PDict [(''id'', PStr ''n1'')]], no_tenant_one_network)"
    by (simp add: extract_resources_def dict_getitem_def Network_def
        no_tenant_one_network_def endswith_def)
  have some: "map_of scenario_A ''_context_tenant_id'' = Some (PStr ''p1'')"
    by (simp add: scenario_A_def envelope_def)
  have user: "map_of no_tenant_one_network ''_context_user_id'' \<noteq> None"
    by (simp add: no_tenant_one_network_def)
  from missing_tenant_field[of no_tenant_one_network Network
      "PList [PDict [(''id'', PStr ''n1'')]]" no_tenant_one_network
      "PDict [(''id'', PStr ''n1'')]" "[]"] none ex user
  have 1: "emitted (process_notification Network no_tenant_one_network) = []
   \<and> raised (process_notification Network no_tenant_one_network)
       = Some (KeyError ''_context_tenant_id'')"
    by simp
  from missing_tenant_field[of scenario_A Network] some
  have 2: "raised (process_notification Network scenario_A)
      \<noteq> Some (KeyError ''_context_tenant_id'')"
    by simp
  from none some 1 2 show ?thesis by blast
qed

subsection \<open>C5: the id of an \<open>update.start\<close> resource\<close>

text \<open>
  C5 says that on an \<open>update.start\<close> event a resource object without an \<open>id\<close> gets the
  payload's top-level id. The branch that does this is guarded by \<open>if resource:\<close>, and
  an empty dictionary is false: for the resource object \<open>{}\<close> and the payload id \<open>X\<close>
  nothing is extracted under the singular key, \<open>resources\<close> is the (missing) collection
  and no sample is emitted.
\<close>

theorem empty_resource_not_extracted:
  "extract_resources Network empty_resource_update = Inr (PNone, empty_resource_update)
   \<and> process_notification Network empty_resource_update =
       \<lparr>emitted = [], raised = Some TypeError,
        resource_message = Some empty_resource_update,
        message_after = empty_resource_update\<rparr>"
  by (simp add: run_defs Network_def empty_resource_update_def)

text \<open>
  C5 as amended: on an event type ending in \<open>update.start\<close>, for a payload whose
  resource object is a non-empty dictionary without an \<open>id\<close> of its own and whose
  top-level id is \<open>x\<close>, the one extracted resource is that object with \<open>id\<close> set to
  \<open>x\<close> (written into the caller's payload as well), and every sample emitted has the
  resource id \<open>x\<close>; when both context fields are present, samples are emitted and
  nothing is raised. The witness is scenario D.
\<close>

theorem update_start_backfills_id:
  assumes "map_of message ''payload'' = Some (PDict p)"
    and "map_of p (resource_name self) = Some (PDict rd)" and "rd \<noteq> []"
    and "map_of rd ''id'' = None"
    and "map_of p ''id'' = Some x"
    and "map_of message ''event_type'' = Some (PStr et)" and "endswith et ''update.start''"
  shows "extract_resources self message =
           Inr (PList [PDict (AList.update ''id'' x rd)],
                AList.update ''payload''
                  (PDict (AList.update (resource_name self)
                            (PDict (AList.update ''id'' x rd)) p)) message)
       \<and> getitem (PDict (AList.update ''id'' x rd)) ''id'' = Inr x
       \<and> (\<forall>s\<in>set (emitted (process_notification self message)). resource_id s = x)
       \<and> (map_of message ''_context_user_id'' \<noteq> None
            \<and> map_of message ''_context_tenant_id'' \<noteq> None
          \<longrightarrow> emitted (process_notification self message) \<noteq> []
            \<and> raised (process_notification self message) = None)"
proof -
  let ?r = "PDict (AList.update ''id'' x rd)"
  let ?m = "AList.update ''payload'' (PDict (AList.update (resource_name self) ?r p)) message"
  have ex: "extract_resources self message = Inr (PList [?r], ?m)"
    using extract_resources_update_start[OF assms(1,2) _ assms(6,7)] assms(3,5) by simp
  have id: "getitem ?r ''id'' = Inr x"
    by (simp add: dict_getitem_def update_conv')
  have all: "\<forall>s\<in>set (emitted (process_notification self message)). resource_id s = x"
  proof
    fix s assume "s \<in> set (emitted (process_notification self message))"
    then obtain resources message' rs r where
      "extract_resources self message = Inr (resources, message')"
      "py_iter resources = Inr rs" "r \<in> set rs" "getitem r ''id'' = Inr (resource_id s)"
      by (rule process_notification_samples)
    with ex id show "resource_id s = x" by auto
  qed
  have some: "emitted (process_notification self message) \<noteq> []
            \<and> raised (process_notification self message) = None"
    if ctx: "map_of message ''_context_user_id'' \<noteq> None
            \<and> map_of message ''_context_tenant_id'' \<noteq> None"
  proof -
    from ctx obtain uid pid where
      "map_of message ''_context_user_id'' = Some uid"
      "map_of message ''_context_tenant_id'' = Some pid" by auto
    then have keys: "map_of ?m ''_context_user_id'' = Some uid"
      "map_of ?m ''_context_tenant_id'' = Some pid"
      "map_of ?m ''event_type'' = Some (PStr et)"
      using assms(6) by (simp_all add: update_conv')
    have ids: "\<forall>d\<in>set [AList.update ''id'' x rd]. map_of d ''id'' \<noteq> None"
      by (simp add: update_conv')
    obtain ss e rm where run:
      "emit_loop (counter_name self) (unit_value self) ?m (map PDict [AList.update ''id'' x rd])
         = (ss, e, rm)"
      by (cases "emit_loop (counter_name self) (unit_value self) ?m
          (map PDict [AList.update ''id'' x rd])") auto
    from emit_loop_well_formed[OF keys ids, of "counter_name self" "unit_value self"] run
    have "ss \<noteq> [] \<and> e = None"
      by (auto simp: spec_emit_def Let_def)
    with ex run show ?thesis
      by (simp add: process_notification_def del: emit_loop.simps)
  qed
  from ex id all some show ?thesis by simp
qed

theorem update_start_backfills_id_witness:
  "extract_resources Network scenario_D
     = Inr (PList [PDict [(''name'', PStr ''changed''), (''id'', PStr ''n1'')]],
            envelope ''network.update.start''
              [(''id'', PStr ''n1''),
               (''network'', PDict [(''name'', PStr ''changed''), (''id'', PStr ''n1'')])])
   \<and> map resource_id (emitted (process_notification Network scenario_D))
     = [PStr ''n1'', PStr ''n1'']
   \<and> raised (process_notification Network scenario_D) = None"
proof -
  have run: "map resource_id (emitted (process_notification Network scenario_D))
     = [PStr ''n1'', PStr ''n1'']"
    by (simp add: run_defs Network_def scenario_D_def)
  have "extract_resources Network scenario_D =
           Inr (PList [PDict (AList.update ''id'' (PStr ''n1'') [(''name'', PStr ''changed'')])],
                AList.update ''payload''
                  (PDict (AList.update (resource_name Network)
                            (PDict (AList.update ''id'' (PStr ''n1'')
                                      [(''name'', PStr ''changed'')]))
                            [(''id'', PStr ''n1''),
                             (''network'', PDict [(''name'', PStr ''changed'')])]))
                  scenario_D)
       \<and> getitem (PDict (AList.update ''id'' (PStr ''n1'') [(''name'', PStr ''changed'')])) ''id''
           = Inr (PStr ''n1'')
       \<and> (\<forall>s\<in>set (emitted (process_notification Network scenario_D)).
             resource_id s = PStr ''n1'')
       \<and> (map_of scenario_D ''_context_user_id'' \<noteq> None
            \<and> map_of scenario_D ''_context_tenant_id'' \<noteq> None
          \<longrightarrow> emitted (process_notification Network scenario_D) \<noteq> []
            \<and> raised (process_notification Network scenario_D) = None)"
    by (rule update_start_backfills_id[where et = "''network.update.start''"])
       (simp_all add: scenario_D_def envelope_def Network_def endswith_def)
  then show ?thesis
    using run by (simp add: scenario_D_def envelope_def Network_def)
qed

subsection \<open>C6: the singular key and the plural key\<close>




subsection \<open>C7: the bandwidth plugin\<close>

text \<open>
  C7: when the payload carries \<open>bytes\<close>, \<open>tenant_id\<close> and \<open>label_id\<close>, the bandwidth
  plugin yields exactly one sample, named \<open>bandwidth\<close>, of type delta, with unit \<open>B\<close>,
  no user id, and with volume, project id and resource id taken from those three fields;
  it does not raise. The message handed to the constructor is the caller's envelope
  itself. The witness is scenario C of the specification: 4096 bytes for tenant \<open>p1\<close>
  and label \<open>lbl1\<close> on an \<open>l3.meter\<close> event.
\<close>

theorem bandwidth_one_delta_sample:
  assumes "map_of message ''payload'' = Some (PDict p)"
    and "map_of p ''bytes'' = Some b"
    and "map_of p ''tenant_id'' = Some t"
    and "map_of p ''label_id'' = Some l"
  shows "bandwidth_process_notification message =
           ([\<lparr>name = ''bandwidth'', kind = TYPE_DELTA, unit = ''B'', volume = b,
              user_id = PNone, project_id = t, resource_id = l, raw_message = message,
              message_object = Caller_message\<rparr>],
            None)"
  using assms
  by (simp add: bandwidth_process_notification_def dict_getitem_def from_notification_def)

theorem bandwidth_one_delta_sample_witness:
  "bandwidth_process_notification scenario_C
   = ([\<lparr>name = ''bandwidth'', kind = TYPE_DELTA, unit = ''B'', volume = PInt 4096,
        user_id = PNone, project_id = PStr ''p1'', resource_id = PStr ''lbl1'',
        raw_message = scenario_C,
        message_object = Caller_message\<rparr>],
      None)"
  using bandwidth_one_delta_sample
    [of scenario_C
        "[(''bytes'', PInt 4096), (''tenant_id'', PStr ''p1''), (''label_id'', PStr ''lbl1'')]"
        "PInt 4096" "PStr ''p1''" "PStr ''lbl1''"]
  by (simp add: scenario_C_def)

subsection \<open>C8: the message a sample carries\<close>




subsection \<open>C10: the backfill overwrites, and only on the singular branch\<close>

text \<open>
  C10: on an event type ending in \<open>update.start\<close>, with a true value under
  \<open>resource_name\<close>, line 86 assigns the payload's top-level id to the resource without
  looking at what the resource holds. The first part gives the whole result of the
  branch: \<open>KeyError\<close> when the payload has no top-level id, \<open>TypeError\<close> when the true
  value is not a dictionary, and otherwise the resource with \<open>id\<close> assigned, which is
  also what the caller's payload then holds. The second part reads the \<open>id\<close> of that
  resource: it is the top-level id, with no condition on an \<open>id\<close> the resource had
  before. The third part is the plural branch: the collection is returned as
  \<open>.get\<close> found it and the envelope is not written to. The witness is a resource that
  carries the id \<open>other\<close> under a top-level id \<open>n1\<close>, and an \<open>update.start\<close> event
  with a collection, whose elements keep their ids.
\<close>

theorem update_start_overwrites_id:
  assumes "map_of message ''payload'' = Some (PDict p)"
  shows "(\<forall>r et. map_of p (resource_name self) = Some r \<and> truthy r
              \<and> map_of message ''event_type'' = Some (PStr et) \<and> endswith et ''update.start''
            \<longrightarrow> extract_resources self message =
                  (case map_of p ''id'' of
                     None \<Rightarrow> Inl (KeyError ''id'')
                   | Some v \<Rightarrow>
                     (case r of
                        PDict rd \<Rightarrow>
                          Inr (PList [PDict (AList.update ''id'' v rd)],
                               AList.update ''payload''
                                 (PDict (AList.update (resource_name self)
                                           (PDict (AList.update ''id'' v rd)) p)) message)
                      | _ \<Rightarrow> Inl TypeError)))
       \<and> (\<forall>rd v et. map_of p (resource_name self) = Some (PDict rd) \<and> rd \<noteq> []
              \<and> map_of p ''id'' = Some v
              \<and> map_of message ''event_type'' = Some (PStr et) \<and> endswith et ''update.start''
            \<longrightarrow> (\<exists>message'. extract_resources self message =
                     Inr (PList [PDict (AList.update ''id'' v rd)], message'))
                \<and> getitem (PDict (AList.update ''id'' v rd)) ''id'' = Inr v)
       \<and> (\<not> truthy (case map_of p (resource_name self) of None \<Rightarrow> PNone | Some v \<Rightarrow> v)
            \<longrightarrow> extract_resources self message =
                  Inr (case map_of p (resource_name self @ ''s'') of
                         None \<Rightarrow> PNone | Some v \<Rightarrow> v, message))"
proof (intro conjI allI impI)
  fix r et
  assume "map_of p (resource_name self) = Some r \<and> truthy r
              \<and> map_of message ''event_type'' = Some (PStr et) \<and> endswith et ''update.start''"
  with assms show "extract_resources self message =
                  (case map_of p ''id'' of
                     None \<Rightarrow> Inl (KeyError ''id'')
                   | Some v \<Rightarrow>
                     (case r of
                        PDict rd \<Rightarrow>
                          Inr (PList [PDict (AList.update ''id'' v rd)],
                               AList.update ''payload''
                                 (PDict (AList.update (resource_name self)
                                           (PDict (AList.update ''id'' v rd)) p)) message)
                      | _ \<Rightarrow> Inl TypeError))"
    by (simp add: extract_resources_update_start)
next
  fix rd v et
  assume *: "map_of p (resource_name self) = Some (PDict rd) \<and> rd \<noteq> []
              \<and> map_of p ''id'' = Some v
              \<and> map_of message ''event_type'' = Some (PStr et) \<and> endswith et ''update.start''"
  with assms show "\<exists>message'. extract_resources self message =
                     Inr (PList [PDict (AList.update ''id'' v rd)], message')"
    by (simp add: extract_resources_update_start[where r = "PDict rd" and et = et])
  show "getitem (PDict (AList.update ''id'' v rd)) ''id'' = Inr v"
    by (simp add: dict_getitem_def update_conv')
next
  assume "\<not> truthy (case map_of p (resource_name self) of None \<Rightarrow> PNone | Some v \<Rightarrow> v)"
  with assms show "extract_resources self message =
                  Inr (case map_of p (resource_name self @ ''s'') of
                         None \<Rightarrow> PNone | Some v \<Rightarrow> v, message)"
    by (rule extract_resources_plural)
qed

theorem update_start_overwrites_id_witness:
  "extract_resources Network own_id_update =
     Inr (PList [PDict [(''id'', PStr ''n1''), (''name'', PStr ''changed'')]],
          envelope ''network.update.start''
            [(''id'', PStr ''n1''),
             (''network'', PDict [(''id'', PStr ''n1''), (''name'', PStr ''changed'')])])
   \<and> extract_resources Network plural_update_start =
     Inr (PList [PDict [(''id'', PStr ''n1'')], PDict [(''id'', PStr ''n2'')]],
          plural_update_start)"
proof -
  have own: "map_of own_id_update ''payload'' = Some (PDict
      [(''id'', PStr ''n1''),
       (''network'', PDict [(''id'', PStr ''other''), (''name'', PStr ''changed'')])])"
    by (simp add: own_id_update_def envelope_def)
  have plural: "map_of plural_update_start ''payload'' = Some (PDict
      [(''id'', PStr ''top''),
       (''networks'', PList [PDict [(''id'', PStr ''n1'')], PDict [(''id'', PStr ''n2'')]])])"
    by (simp add: plural_update_start_def envelope_def)
  have et: "map_of own_id_update ''event_type'' = Some (PStr ''network.update.start'')
      \<and> endswith ''network.update.start'' ''update.start''"
    by (simp add: own_id_update_def envelope_def endswith_def)
  from update_start_overwrites_id[OF own, of Network] et
  have 1: "extract_resources Network own_id_update =
     Inr (PList [PDict [(''id'', PStr ''n1''), (''name'', PStr ''changed'')]],
          envelope ''network.update.start''
            [(''id'', PStr ''n1''),
             (''network'', PDict [(''id'', PStr ''n1''), (''name'', PStr ''changed'')])])"
    by (simp add: Network_def own_id_update_def envelope_def)
  from update_start_overwrites_id[OF plural, of Network]
  have 2: "extract_resources Network plural_update_start =
     Inr (PList [PDict [(''id'', PStr ''n1'')], PDict [(''id'', PStr ''n2'')]],
          plural_update_start)"
    by (simp add: Network_def)
  from 1 2 show ?thesis by simp
qed

end
